theory Spec2Isabelle
  imports Main "HOL-Library.Word"
begin

unbundle bit_operations_syntax

section \<open>The GitHub release provider (pkg/providers/github.go)\<close>

text \<open>
  A shallow embedding of the provider: the URL parser \<open>newGitHub\<close>, the release
  resolver \<open>getAnyLatestRelease\<close>, and the two operations \<open>Fetch\<close> and
  \<open>GetLatestVersion\<close>. Go strings are byte sequences, here \<open>string\<close>. A Go
  \<open>error\<close> return is the left summand of a sum type; a run-time panic is a value
  of its own, distinct from a returned error.
\<close>

subsection \<open>The functions of package strings that the parser calls\<close>

text \<open>
  \<open>strings.Split(s, sep)\<close> for a separator of one byte: the pieces of \<open>s\<close> between
  the occurrences of \<open>sep\<close>. The result is never empty: \<open>Split "" "/"\<close> is \<open>[""]\<close>.
\<close>

fun Split :: "string \<Rightarrow> char \<Rightarrow> string list" where
  "Split [] sep = [[]]"
| "Split (c # cs) sep =
     (if c = sep then [] # Split cs sep
      else (case Split cs sep of [] \<Rightarrow> [[c]] | x # xs \<Rightarrow> (c # x) # xs))"

text \<open>\<open>strings.HasPrefix(s, prefix)\<close>.\<close>

fun HasPrefix :: "string \<Rightarrow> string \<Rightarrow> bool" where
  "HasPrefix s [] = True"
| "HasPrefix [] (p # ps) = False"
| "HasPrefix (c # cs) (p # ps) = (c = p \<and> HasPrefix cs ps)"

text \<open>\<open>strings.Contains(s, substr)\<close>: \<open>substr\<close> starts at some position of \<open>s\<close>.\<close>

fun Contains :: "string \<Rightarrow> string \<Rightarrow> bool" where
  "Contains [] substr = (substr = [])"
| "Contains (c # cs) substr = (HasPrefix (c # cs) substr \<or> Contains cs substr)"

text \<open>\<open>strings.Join(elems, sep)\<close>.\<close>

fun Join :: "string list \<Rightarrow> string \<Rightarrow> string" where
  "Join [] sep = []"
| "Join [x] sep = x"
| "Join (x # y # ys) sep = x @ sep @ Join (y # ys) sep"

subsection \<open>Data\<close>

text \<open>\<open>url.URL\<close>: the parser reads \<open>Path\<close> only, and prints the whole URL in its error.\<close>

record url =
  Scheme :: string
  Host :: string
  Path :: string

text \<open>
  The values of Go's \<open>error\<close> that reach this file. \<open>ErrorResponse\<close> is
  \<open>*github.ErrorResponse\<close> with its \<open>Response.StatusCode\<close> and \<open>Message\<close>;
  \<open>ErrParsingGithubURL u\<close> is the \<open>fmt.Errorf\<close> value of \<open>newGitHub\<close>
  ("Error parsing Github URL ..., can't find owner and repo", printing \<open>u\<close>); every
  other error (transport, rate limit, the asset package's) is an \<open>OtherError\<close>.
\<close>

datatype error =
    ErrorResponse int string
  | ErrParsingGithubURL url
  | OtherError string

definition StatusNotFound :: int where
  "StatusNotFound = 404"

text \<open>Run-time panics of Go: an index or a slice bound out of range (index, length).\<close>

datatype panic =
    IndexOutOfRange nat nat
  | SliceBoundsOutOfRange nat nat

datatype fault = Error error | Panic panic

text \<open>
  \<open>context.Context\<close>, as far as this file is concerned: the two empty contexts of
  package context, and contexts derived from a parent with a cancel function or a
  deadline.
\<close>

datatype Context =
    Background
  | TODO
  | WithCancel Context
  | WithDeadline Context nat

text \<open>
  Whether the context can ever be cancelled (its \<open>Done\<close> channel is not nil):
  \<open>context.Background()\<close> and \<open>context.TODO()\<close> are never cancelled and have no
  deadline.
\<close>

fun cancellable :: "Context \<Rightarrow> bool" where
  "cancellable Background = False"
| "cancellable TODO = False"
| "cancellable (WithCancel parent) = True"
| "cancellable (WithDeadline parent d) = True"

text \<open>
  \<open>*github.Client\<close>: \<open>github.NewClient(tc)\<close>, where \<open>tc\<close> is nil or the oauth2
  client of a static token.
\<close>

datatype client = NewClient "string option"

record ListOptions =
  Page :: int
  PerPage :: int

text \<open>
  \<open>github.ReleaseAsset\<close> and \<open>github.RepositoryRelease\<close>: the fields this file
  reads. They are pointers in go-github, nil when the provider sent no value.
\<close>

record ReleaseAsset =
  Name :: "string option"
  BrowserDownloadURL :: "string option"

record RepositoryRelease =
  TagName :: "string option"
  HTMLURL :: "string option"
  Assets :: "ReleaseAsset list"

text \<open>The accessors of go-github: the zero value where the field is nil.\<close>

definition GetName :: "ReleaseAsset \<Rightarrow> string" where
  "GetName a = (case ReleaseAsset.Name a of None \<Rightarrow> [] | Some n \<Rightarrow> n)"

definition GetBrowserDownloadURL :: "ReleaseAsset \<Rightarrow> string" where
  "GetBrowserDownloadURL a = (case BrowserDownloadURL a of None \<Rightarrow> [] | Some u \<Rightarrow> u)"

definition GetTagName :: "RepositoryRelease \<Rightarrow> string" where
  "GetTagName r = (case TagName r of None \<Rightarrow> [] | Some t \<Rightarrow> t)"

definition GetHTMLURL :: "RepositoryRelease \<Rightarrow> string" where
  "GetHTMLURL r = (case HTMLURL r of None \<Rightarrow> [] | Some u \<Rightarrow> u)"

text \<open>
  The provider behind \<open>g.client.Repositories\<close>: what each of the three operations
  answers for a client, a context, an owner and a repository. A resolution calls each
  operation at most once, so a function per operation loses nothing.
\<close>

record github_api =
  GetReleaseByTag ::
    "client \<Rightarrow> Context \<Rightarrow> string \<Rightarrow> string \<Rightarrow> string \<Rightarrow> error + RepositoryRelease"
  GetLatestRelease ::
    "client \<Rightarrow> Context \<Rightarrow> string \<Rightarrow> string \<Rightarrow> error + RepositoryRelease"
  ListReleases ::
    "client \<Rightarrow> Context \<Rightarrow> string \<Rightarrow> string \<Rightarrow> ListOptions \<Rightarrow> error + RepositoryRelease list"

text \<open>The outbound calls a resolution makes, in order, each with its arguments.\<close>

datatype api_call =
    Call_GetReleaseByTag Context string string string
  | Call_GetLatestRelease Context string string
  | Call_ListReleases Context string string ListOptions

fun call_context :: "api_call \<Rightarrow> Context" where
  "call_context (Call_GetReleaseByTag c ow rp tg) = c"
| "call_context (Call_GetLatestRelease c ow rp) = c"
| "call_context (Call_ListReleases c ow rp opts) = c"

fun is_ListReleases :: "api_call \<Rightarrow> bool" where
  "is_ListReleases (Call_ListReleases c ow rp opts) = True"
| "is_ListReleases other = False"

text \<open>\<open>type gitHub struct\<close>.\<close>

record gitHub =
  url :: url
  client :: client
  owner :: string
  repo :: string
  tag :: string

text \<open>\<open>assets.Asset\<close>, a candidate.\<close>

record Asset =
  Name :: string
  URL :: string

text \<open>
  Package assets is not part of this file: its three functions are parameters of the
  model, with the signatures \<open>Fetch\<close> uses them at.
\<close>

record assets_pkg =
  FilterAssets :: "string \<Rightarrow> Asset list \<Rightarrow> error + Asset"
  ProcessURL :: "Asset \<Rightarrow> error + (string \<times> 8 word list)"
  SanitizeName :: "string \<Rightarrow> string \<Rightarrow> string"

subsection \<open>SHA-256\<close>

text \<open>
  \<open>crypto/sha256\<close> is Go's library. A \<open>hash.Hash\<close> is modelled by the bytes
  written to it so far: \<open>sha256.New()\<close> has none, \<open>Write\<close> appends, and
  \<open>Sum(b)\<close> appends to \<open>b\<close> the SHA-256 digest (FIPS 180-4) of the bytes
  written, leaving the hash as it was.
\<close>

definition rotr :: "nat \<Rightarrow> 32 word \<Rightarrow> 32 word" where
  "rotr n x = (drop_bit n x) OR (push_bit (32 - n) x)"

definition Ch :: "32 word \<Rightarrow> 32 word \<Rightarrow> 32 word \<Rightarrow> 32 word" where
  "Ch x y z = (x AND y) XOR (NOT x AND z)"

definition Maj :: "32 word \<Rightarrow> 32 word \<Rightarrow> 32 word \<Rightarrow> 32 word" where
  "Maj x y z = (x AND y) XOR (x AND z) XOR (y AND z)"

definition Sigma0 :: "32 word \<Rightarrow> 32 word" where
  "Sigma0 x = rotr 2 x XOR rotr 13 x XOR rotr 22 x"

definition Sigma1 :: "32 word \<Rightarrow> 32 word" where
  "Sigma1 x = rotr 6 x XOR rotr 11 x XOR rotr 25 x"

definition sigma0 :: "32 word \<Rightarrow> 32 word" where
  "sigma0 x = rotr 7 x XOR rotr 18 x XOR drop_bit 3 x"

definition sigma1 :: "32 word \<Rightarrow> 32 word" where
  "sigma1 x = rotr 17 x XOR rotr 19 x XOR drop_bit 10 x"

definition K256 :: "32 word list" where
  "K256 = [
   0x428A2F98, 0x71374491, 0xB5C0FBCF, 0xE9B5DBA5, 0x3956C25B, 0x59F111F1, 0x923F82A4, 0xAB1C5ED5,
   0xD807AA98, 0x12835B01, 0x243185BE, 0x550C7DC3, 0x72BE5D74, 0x80DEB1FE, 0x9BDC06A7, 0xC19BF174,
   0xE49B69C1, 0xEFBE4786, 0x0FC19DC6, 0x240CA1CC, 0x2DE92C6F, 0x4A7484AA, 0x5CB0A9DC, 0x76F988DA,
   0x983E5152, 0xA831C66D, 0xB00327C8, 0xBF597FC7, 0xC6E00BF3, 0xD5A79147, 0x06CA6351, 0x14292967,
   0x27B70A85, 0x2E1B2138, 0x4D2C6DFC, 0x53380D13, 0x650A7354, 0x766A0ABB, 0x81C2C92E, 0x92722C85,
   0xA2BFE8A1, 0xA81A664B, 0xC24B8B70, 0xC76C51A3, 0xD192E819, 0xD6990624, 0xF40E3585, 0x106AA070,
   0x19A4C116, 0x1E376C08, 0x2748774C, 0x34B0BCB5, 0x391C0CB3, 0x4ED8AA4A, 0x5B9CCA4F, 0x682E6FF3,
   0x748F82EE, 0x78A5636F, 0x84C87814, 0x8CC70208, 0x90BEFFFA, 0xA4506CEB, 0xBEF9A3F7, 0xC67178F2]"

definition init256 :: "32 word list" where
  "init256 = [0x6A09E667, 0xBB67AE85, 0x3C6EF372, 0xA54FF53A,
              0x510E527F, 0x9B05688C, 0x1F83D9AB, 0x5BE0CD19]"

text \<open>Big-endian 32-bit words of a byte sequence.\<close>

fun be32 :: "8 word list \<Rightarrow> 32 word list" where
  "be32 (a # b # c # d # rest) =
     (push_bit 24 (ucast a) OR push_bit 16 (ucast b) OR push_bit 8 (ucast c) OR ucast d) # be32 rest"
| "be32 short = []"

text \<open>
  The message schedule, most recent word first: from \<open>W\<^sub>t\<^sub>-\<^sub>1, W\<^sub>t\<^sub>-\<^sub>2, ...\<close> the next
  word is \<open>\<sigma>\<^sub>1(W\<^sub>t\<^sub>-\<^sub>2) + W\<^sub>t\<^sub>-\<^sub>7 + \<sigma>\<^sub>0(W\<^sub>t\<^sub>-\<^sub>1\<^sub>5) + W\<^sub>t\<^sub>-\<^sub>1\<^sub>6\<close>.
\<close>

fun schedule :: "nat \<Rightarrow> 32 word list \<Rightarrow> 32 word list" where
  "schedule 0 ws = ws"
| "schedule (Suc n) ws =
     schedule n ((sigma1 (ws ! 1) + ws ! 6 + sigma0 (ws ! 14) + ws ! 15) # ws)"

fun rounds :: "32 word list \<Rightarrow> 32 word list \<Rightarrow> 32 word list \<Rightarrow> 32 word list" where
  "rounds (k # ks) (w # ws) [a, b, c, d, e, f, g, h] =
     (let t1 = h + Sigma1 e + Ch e f g + k + w;
          t2 = Sigma0 a + Maj a b c
      in rounds ks ws [t1 + t2, a, b, c, d + t1, e, f, g])"
| "rounds ks ws st = st"

definition block :: "32 word list \<Rightarrow> 8 word list \<Rightarrow> 32 word list" where
  "block h p = map2 (+) h (rounds K256 (rev (schedule 48 (rev (be32 p)))) h)"

fun blocks :: "nat \<Rightarrow> 32 word list \<Rightarrow> 8 word list \<Rightarrow> 32 word list" where
  "blocks 0 h p = h"
| "blocks (Suc n) h p = blocks n (block h (take 64 p)) (drop 64 p)"

definition put64 :: "64 word \<Rightarrow> 8 word list" where
  "put64 v = map (\<lambda>i. ucast (drop_bit (8 * i) v)) [7, 6, 5, 4, 3, 2, 1, 0]"

definition put32 :: "32 word \<Rightarrow> 8 word list" where
  "put32 v = map (\<lambda>i. ucast (drop_bit (8 * i) v)) [3, 2, 1, 0]"

text \<open>The padding of a message of \<open>n\<close> bytes: a 1 bit, zeros up to 56 mod 64, the bit length.\<close>

definition padding :: "nat \<Rightarrow> 8 word list" where
  "padding n =
     0x80 # replicate ((if n mod 64 < 56 then 56 - n mod 64 else 64 + 56 - n mod 64) - 1) 0
       @ put64 (push_bit 3 (of_nat n))"

definition sha256 :: "8 word list \<Rightarrow> 8 word list" where
  "sha256 m =
     (let p = m @ padding (length m)
      in concat (map put32 (blocks (length p div 64) init256 p)))"

record digest =
  written :: "8 word list"

definition sha256_New :: digest where
  "sha256_New = \<lparr>written = []\<rparr>"

definition hash_Write :: "digest \<Rightarrow> 8 word list \<Rightarrow> digest" where
  "hash_Write d p = d\<lparr>written := written d @ p\<rparr>"

definition hash_Sum :: "digest \<Rightarrow> 8 word list \<Rightarrow> 8 word list" where
  "hash_Sum d b = b @ sha256 (written d)"

text \<open>The SHA-256 digest of the empty input, e3b0c442...7852b855.\<close>

definition sha256_empty_digest :: "8 word list" where
  "sha256_empty_digest =
     [0xE3, 0xB0, 0xC4, 0x42, 0x98, 0xFC, 0x1C, 0x14, 0x9A, 0xFB, 0xF4, 0xC8, 0x99, 0x6F, 0xB9, 0x24,
      0x27, 0xAE, 0x41, 0xE4, 0x64, 0x9B, 0x93, 0x4C, 0xA4, 0x95, 0x99, 0x1B, 0x78, 0x52, 0xB8, 0x55]"

text \<open>\<open>type File struct\<close>, the artifact \<open>Fetch\<close> returns.\<close>

record File =
  Data :: "8 word list"
  Name :: string
  Hash :: digest
  Version :: string

subsection \<open>newGitHub\<close>

text \<open>
  The loop \<open>for i, p := range ps\<close> of \<open>newGitHub\<close>: at every element equal to
  \<open>"releases"\<close> the tag becomes \<open>strings.Join(ps[i+2:], "/")\<close>, so the last
  such element decides. The slice expression \<open>ps[i+2:]\<close> panics when \<open>i+2\<close> is
  beyond the length of \<open>ps\<close>.
\<close>

fun range_releases :: "string list \<Rightarrow> (nat \<times> string) list \<Rightarrow> string \<Rightarrow> panic + string" where
  "range_releases ps [] tg = Inr tg"
| "range_releases ps ((i, p) # rest) tg =
     (if p = ''releases'' then
        (if length ps < i + 2 then Inl (SliceBoundsOutOfRange (i + 2) (length ps))
         else range_releases ps rest (Join (drop (i + 2) ps) ''/''))
      else range_releases ps rest tg)"

text \<open>The block "it's a specific releases URL" of \<open>newGitHub\<close>, from the path to the tag.\<close>

definition releases_tag :: "string \<Rightarrow> panic + string" where
  "releases_tag path =
     (if Contains path ''/releases/'' then
        (let ps = Split path CHR ''/'' in range_releases ps (enumerate 0 ps) [])
      else Inr [])"

text \<open>An index expression \<open>s[i]\<close>, which panics out of range.\<close>

definition index :: "'a list \<Rightarrow> nat \<Rightarrow> panic + 'a" where
  "index s i = (if i < length s then Inr (s ! i) else Inl (IndexOutOfRange i (length s)))"

text \<open>
  \<open>newGitHub(u)\<close>. The environment is a parameter: \<open>getenv\<close> is \<open>os.Getenv\<close>.
  The guard is \<open>len(s) < 2\<close>; the struct literal at the end reads \<open>s[1]\<close> and
  \<open>s[2]\<close>.
\<close>

definition newGitHub :: "(string \<Rightarrow> string) \<Rightarrow> url \<Rightarrow> fault + gitHub" where
  "newGitHub getenv u =
     (let s = Split (Path u) CHR ''/'' in
      if length s < 2 then Inl (Error (ErrParsingGithubURL u))
      else
        (case releases_tag (Path u) of
           Inl p \<Rightarrow> Inl (Panic p)
         | Inr tg \<Rightarrow>
             (let token = getenv ''GITHUB_AUTH_TOKEN'';
                  tc = (if token \<noteq> [] then Some token else None);
                  cl = NewClient tc
              in (case index s 1 of
                    Inl p \<Rightarrow> Inl (Panic p)
                  | Inr ow \<Rightarrow>
                      (case index s 2 of
                         Inl p \<Rightarrow> Inl (Panic p)
                       | Inr rp \<Rightarrow>
                           Inr \<lparr>url = u, client = cl, owner = ow, repo = rp, tag = tg\<rparr>)))))"

subsection \<open>The release resolver\<close>

text \<open>
  \<open>getAnyLatestRelease(ctx)\<close>, with the calls it makes. The fallback to
  \<open>ListReleases\<close> is taken only for a \<open>*github.ErrorResponse\<close> whose status code is
  \<open>http.StatusNotFound\<close>; an empty list falls through to the original error.
\<close>

definition getAnyLatestRelease ::
  "github_api \<Rightarrow> gitHub \<Rightarrow> Context \<Rightarrow> api_call list \<times> (error + RepositoryRelease)" where
  "getAnyLatestRelease api g ctx =
     (let c1 = Call_GetLatestRelease ctx (owner g) (repo g) in
      case GetLatestRelease api (client g) ctx (owner g) (repo g) of
        Inr release \<Rightarrow> ([c1], Inr release)
      | Inl err \<Rightarrow>
          (case err of
             ErrorResponse code msg \<Rightarrow>
               if code = StatusNotFound then
                 (let opts = \<lparr>Page = 0, PerPage = 1\<rparr>;
                      c2 = Call_ListReleases ctx (owner g) (repo g) opts in
                  case ListReleases api (client g) ctx (owner g) (repo g) opts of
                    Inl listErr \<Rightarrow> ([c1, c2], Inl listErr)
                  | Inr releases \<Rightarrow>
                      if length releases > 0 then ([c1, c2], Inr (releases ! 0))
                      else ([c1, c2], Inl err))
               else ([c1], Inl err)
           | ErrParsingGithubURL u \<Rightarrow> ([c1], Inl err)
           | OtherError m \<Rightarrow> ([c1], Inl err)))"

text \<open>
  \<open>GetLatestVersion()\<close>: the tag name and the HTML URL of the latest release. It takes
  no argument and passes \<open>context.TODO()\<close>.
\<close>

definition GetLatestVersion ::
  "github_api \<Rightarrow> gitHub \<Rightarrow> api_call list \<times> (error + string \<times> string)" where
  "GetLatestVersion api g =
     (case getAnyLatestRelease api g TODO of
        (calls, Inl err) \<Rightarrow> (calls, Inl err)
      | (calls, Inr release) \<Rightarrow> (calls, Inr (GetTagName release, GetHTMLURL release)))"

subsection \<open>Fetch\<close>

text \<open>
  The first part of \<open>Fetch()\<close>, up to \<open>if err != nil\<close>: with a tag, the release of
  that tag; without, the latest one. Both branches pass \<open>context.TODO()\<close>.
\<close>

definition Fetch_release ::
  "github_api \<Rightarrow> gitHub \<Rightarrow> api_call list \<times> (error + RepositoryRelease)" where
  "Fetch_release api g =
     (if length (tag g) > 0 then
        ([Call_GetReleaseByTag TODO (owner g) (repo g) (tag g)],
         GetReleaseByTag api (client g) TODO (owner g) (repo g) (tag g))
      else getAnyLatestRelease api g TODO)"

text \<open>
  The loop \<open>for _, a := range release.Assets\<close> that appends one candidate for each
  attachment.
\<close>

fun append_candidates :: "Asset list \<Rightarrow> ReleaseAsset list \<Rightarrow> Asset list" where
  "append_candidates candidates [] = candidates"
| "append_candidates candidates (a # as) =
     append_candidates
       (candidates @ [\<lparr>Asset.Name = GetName a, URL = GetBrowserDownloadURL a\<rparr>]) as"

definition Fetch_candidates :: "RepositoryRelease \<Rightarrow> Asset list" where
  "Fetch_candidates release = append_candidates [] (Assets release)"

text \<open>\<open>Fetch()\<close>, with the provider calls it makes.\<close>

definition Fetch ::
  "github_api \<Rightarrow> assets_pkg \<Rightarrow> gitHub \<Rightarrow> api_call list \<times> (error + File)" where
  "Fetch api pkg g =
     (case Fetch_release api g of
        (calls, Inl err) \<Rightarrow> (calls, Inl err)
      | (calls, Inr release) \<Rightarrow>
          (calls,
           (case FilterAssets pkg (repo g) (Fetch_candidates release) of
              Inl err \<Rightarrow> Inl err
            | Inr gf \<Rightarrow>
                (case ProcessURL pkg gf of
                   Inl err \<Rightarrow> Inl err
                 | Inr (name, outputFile) \<Rightarrow>
                     (let version = GetTagName release in
                      Inr \<lparr>Data = outputFile,
                           File.Name = SanitizeName pkg name version,
                           Hash = sha256_New,
                           Version = version\<rparr>)))))"

text \<open>\<open>GetID()\<close>.\<close>

definition GetID :: "gitHub \<Rightarrow> string" where
  "GetID g = ''github''"

subsection \<open>The parser in the specification's words\<close>

text \<open>
  The specification's sentence "the first two non-empty segments are owner and
  repository name", as a function of the path; \<open>None\<close> when there are fewer than two.
  \<open>newGitHub\<close> is compared with it below.
\<close>

definition spec_owner_repo :: "string \<Rightarrow> (string \<times> string) option" where
  "spec_owner_repo path =
     (case filter (\<lambda>seg. seg \<noteq> []) (Split path CHR ''/'') of
        ow # rp # rest \<Rightarrow> Some (ow, rp)
      | short \<Rightarrow> None)"

subsection \<open>Concrete inputs\<close>

text \<open>
  URLs, releases, providers and a stand-in for package assets, on which the model is
  run below.
\<close>

definition no_token :: "string \<Rightarrow> string" where
  "no_token k = []"

definition ex_url_view :: url where
  "ex_url_view = \<lparr>Scheme = ''https'', Host = ''github.com'',
     Path = ''/owner/repo/releases/tag/v1.2.3''\<rparr>"

definition ex_url_download :: url where
  "ex_url_download = \<lparr>Scheme = ''https'', Host = ''github.com'',
     Path = ''/owner/repo/releases/download/v1.2.3/asset.tar.gz''\<rparr>"

definition ex_url_double_slash :: url where
  "ex_url_double_slash = \<lparr>Scheme = ''https'', Host = ''github.com'', Path = ''//owner/repo''\<rparr>"

definition ex_url_owner_only :: url where
  "ex_url_owner_only = \<lparr>Scheme = ''https'', Host = ''github.com'', Path = ''/owner''\<rparr>"

definition ex_url_no_slash :: url where
  "ex_url_no_slash = \<lparr>Scheme = [], Host = [], Path = ''owner''\<rparr>"

definition ex_not_found :: error where
  "ex_not_found = ErrorResponse 404 ''Not Found''"

definition ex_R1 :: RepositoryRelease where
  "ex_R1 = \<lparr>TagName = Some ''v2.0.0-rc2'',
     HTMLURL = Some ''https://github.com/owner/repo/releases/tag/v2.0.0-rc2'',
     Assets =
       [\<lparr>ReleaseAsset.Name = Some ''repo_linux_amd64'',
         BrowserDownloadURL =
           Some ''https://github.com/owner/repo/releases/download/v2.0.0-rc2/repo_linux_amd64''\<rparr>,
        \<lparr>ReleaseAsset.Name = Some ''repo_darwin_amd64'',
         BrowserDownloadURL =
           Some ''https://github.com/owner/repo/releases/download/v2.0.0-rc2/repo_darwin_amd64''\<rparr>]\<rparr>"

definition ex_R2 :: RepositoryRelease where
  "ex_R2 = \<lparr>TagName = Some ''v2.0.0-rc1'',
     HTMLURL = Some ''https://github.com/owner/repo/releases/tag/v2.0.0-rc1'',
     Assets = []\<rparr>"

text \<open>A repository with pre-releases only: no latest release, two listed.\<close>

definition ex_api_prereleases :: github_api where
  "ex_api_prereleases =
     \<lparr>GetReleaseByTag = (\<lambda>cl c ow rp tg. Inl ex_not_found),
      GetLatestRelease = (\<lambda>cl c ow rp. Inl ex_not_found),
      ListReleases = (\<lambda>cl c ow rp opts. Inr [ex_R1, ex_R2])\<rparr>"

text \<open>A repository with no release at all.\<close>

definition ex_api_no_releases :: github_api where
  "ex_api_no_releases =
     \<lparr>GetReleaseByTag = (\<lambda>cl c ow rp tg. Inl ex_not_found),
      GetLatestRelease = (\<lambda>cl c ow rp. Inl ex_not_found),
      ListReleases = (\<lambda>cl c ow rp opts. Inr [])\<rparr>"

text \<open>A provider whose listing fails after the latest release was not found.\<close>

definition ex_api_list_fails :: github_api where
  "ex_api_list_fails =
     \<lparr>GetReleaseByTag = (\<lambda>cl c ow rp tg. Inl ex_not_found),
      GetLatestRelease = (\<lambda>cl c ow rp. Inl ex_not_found),
      ListReleases = (\<lambda>cl c ow rp opts. Inl (OtherError ''connection reset''))\<rparr>"

text \<open>
  A stand-in for package assets: the first candidate is selected, its name and four
  bytes are what processing returns, and sanitizing keeps the name.
\<close>

definition ex_pkg :: assets_pkg where
  "ex_pkg =
     \<lparr>FilterAssets =
        (\<lambda>rp cs. case cs of [] \<Rightarrow> Inl (OtherError ''no asset'') | c # rest \<Rightarrow> Inr c),
      ProcessURL = (\<lambda>a. Inr (Asset.Name a, [0x7F, 0x45, 0x4C, 0x46])),
      SanitizeName = (\<lambda>name version. name)\<rparr>"

definition ex_g :: gitHub where
  "ex_g = \<lparr>url = \<lparr>Scheme = ''https'', Host = ''github.com'', Path = ''/owner/repo''\<rparr>,
     client = NewClient None, owner = ''owner'', repo = ''repo'', tag = []\<rparr>"

definition ex_g_pinned :: gitHub where
  "ex_g_pinned = ex_g\<lparr>tag := ''v9.9.9''\<rparr>"

definition ex_file :: File where
  "ex_file = \<lparr>Data = [0x7F, 0x45, 0x4C, 0x46], File.Name = ''repo_linux_amd64'',
     Hash = sha256_New, Version = ''v2.0.0-rc2''\<rparr>"

definition ex_url_view_slash :: url where
  "ex_url_view_slash = \<lparr>Scheme = ''https'', Host = ''github.com'',
     Path = ''/owner/repo/releases/tag/v1.2.3/''\<rparr>"

text \<open>A repository whose only release is \<open>v1.2.3\<close>, with the attachment \<open>asset.tar.gz\<close>.\<close>

definition ex_R123 :: RepositoryRelease where
  "ex_R123 = \<lparr>TagName = Some ''v1.2.3'',
     HTMLURL = Some ''https://github.com/owner/repo/releases/tag/v1.2.3'',
     Assets =
       [\<lparr>ReleaseAsset.Name = Some ''asset.tar.gz'',
         BrowserDownloadURL =
           Some ''https://github.com/owner/repo/releases/download/v1.2.3/asset.tar.gz''\<rparr>]\<rparr>"

definition ex_api_v123 :: github_api where
  "ex_api_v123 =
     \<lparr>GetReleaseByTag =
        (\<lambda>cl c ow rp tg. if tg = ''v1.2.3'' then Inr ex_R123 else Inl ex_not_found),
      GetLatestRelease = (\<lambda>cl c ow rp. Inr ex_R123),
      ListReleases = (\<lambda>cl c ow rp opts. Inr [ex_R123])\<rparr>"

text \<open>What the parser returns for \<open>ex_url_download\<close> and for \<open>ex_url_view\<close>.\<close>

definition ex_g_download :: gitHub where
  "ex_g_download = \<lparr>url = ex_url_download, client = NewClient None, owner = ''owner'',
     repo = ''repo'', tag = ''v1.2.3/asset.tar.gz''\<rparr>"

definition ex_g_view :: gitHub where
  "ex_g_view = \<lparr>url = ex_url_view, client = NewClient None, owner = ''owner'',
     repo = ''repo'', tag = ''v1.2.3''\<rparr>"

definition ex_file_v123 :: File where
  "ex_file_v123 = \<lparr>Data = [0x7F, 0x45, 0x4C, 0x46], File.Name = ''asset.tar.gz'',
     Hash = sha256_New, Version = ''v1.2.3''\<rparr>"

section \<open>Properties\<close>

subsection \<open>Splitting, searching and joining\<close>

lemma Split_not_Nil: "Split s sep \<noteq> []"
  by (induction s) (auto split: list.splits)

lemma Split_append: "Split (a @ sep # b) sep = Split a sep @ Split b sep"
  by (induction a) (auto split: list.splits simp: Split_not_Nil)

lemma Split_no_sep: "sep \<notin> set s \<Longrightarrow> Split s sep = [s]"
  by (induction s) auto

lemma Split_path_shape:
  assumes "CHR ''/'' \<notin> set ow" and "CHR ''/'' \<notin> set rp"
  shows "Split (''/'' @ ow @ ''/'' @ rp) CHR ''/'' = [[], ow, rp]"
    and "Split (''/'' @ ow @ ''/'' @ rp @ ''/'' @ trailing) CHR ''/'' =
           [] # ow # rp # Split trailing CHR ''/''"
  using assms by (simp_all add: Split_append Split_no_sep)

lemma HasPrefix_Contains: "HasPrefix s sub \<Longrightarrow> Contains s sub"
  by (cases s; cases sub) auto

lemma Contains_append: "HasPrefix s sub \<Longrightarrow> Contains (pre @ s) sub"
  by (induction pre) (auto simp: HasPrefix_Contains)

lemma Join_Cons_head: "Join ((c # x) # xs) sep = c # Join (x # xs) sep"
  by (cases xs) simp_all

text \<open>Joining the pieces of a split with the separator gives the string back.\<close>

lemma Join_Split: "Join (Split s sep) [sep] = s"
proof (induction s)
  case Nil
  then show ?case by simp
next
  case (Cons c cs)
  obtain x xs where sp: "Split cs sep = x # xs"
    using Split_not_Nil [of cs sep] by (cases "Split cs sep") auto
  show ?case
    using Cons by (simp add: sp Join_Cons_head)
qed

lemma Split_releases_qualifier:
  assumes "CHR ''/'' \<notin> set q"
  shows "Split (pre @ ''/releases/'' @ q @ ''/'' @ t) CHR ''/'' =
           Split pre CHR ''/'' @ ''releases'' # q # Split t CHR ''/''"
  using assms by (simp add: Split_append Split_no_sep)

subsection \<open>The loop over the path's segments\<close>

lemma range_releases_none:
  "''releases'' \<notin> snd ` set es \<Longrightarrow> range_releases ps es tg = Inr tg"
  by (induction es arbitrary: tg) auto

lemma range_releases_in_bounds:
  "\<forall>e \<in> set es. fst e + 2 \<le> length ps \<Longrightarrow> \<exists>t. range_releases ps es tg = Inr t"
  by (induction es arbitrary: tg) auto

lemma range_releases_append:
  "range_releases ps es1 tg = Inr t1 \<Longrightarrow>
   range_releases ps (es1 @ es2) tg = range_releases ps es2 t1"
  by (induction es1 arbitrary: tg) (auto split: if_splits)

text \<open>
  When the last \<open>"releases"\<close> segment is followed by a qualifier \<open>q\<close> and the
  segments \<open>ts\<close>, the loop ends with the tag \<open>Join ts "/"\<close>; earlier
  \<open>"releases"\<close> segments are overwritten and cannot panic.
\<close>

lemma range_releases_last:
  assumes ps: "ps = xs @ ''releases'' # q # ts"
    and q: "q \<noteq> ''releases''" and ts: "''releases'' \<notin> set ts"
  shows "range_releases ps (enumerate 0 ps) tg = Inr (Join ts ''/'')"
proof -
  let ?n = "length xs"
  have en: "enumerate 0 ps =
      enumerate 0 xs @ (?n, ''releases'') # (Suc ?n, q) # enumerate (Suc (Suc ?n)) ts"
    by (simp add: ps enumerate_append_eq)
  have "\<forall>e \<in> set (enumerate 0 xs). fst e + 2 \<le> length ps"
    by (auto simp: ps in_set_enumerate_eq)
  then obtain t1 where t1: "range_releases ps (enumerate 0 xs) tg = Inr t1"
    using range_releases_in_bounds by blast
  have rest: "''releases'' \<notin> snd ` set (enumerate (Suc (Suc ?n)) ts)"
    using ts by (auto simp: in_set_enumerate_eq)
  have "range_releases ps (enumerate 0 ps) tg =
      range_releases ps ((?n, ''releases'') # (Suc ?n, q) # enumerate (Suc (Suc ?n)) ts) t1"
    unfolding en by (rule range_releases_append [OF t1])
  also have "\<dots> = range_releases ps (enumerate (Suc (Suc ?n)) ts) (Join (drop (?n + 2) ps) ''/'')"
    using q by (simp add: ps)
  also have "\<dots> = Inr (Join (drop (?n + 2) ps) ''/'')"
    by (rule range_releases_none [OF rest])
  also have "drop (?n + 2) ps = ts"
    by (simp add: ps)
  finally show ?thesis .
qed

lemma releases_tag_last:
  assumes "Split path CHR ''/'' = xs @ ''releases'' # q # ts"
    and "Contains path ''/releases/''"
    and "q \<noteq> ''releases''" and "''releases'' \<notin> set ts"
  shows "releases_tag path = Inr (Join ts ''/'')"
  using assms range_releases_last [of "Split path CHR ''/''" xs q ts "[]"]
  by (simp add: releases_tag_def)

lemma releases_tag_absent: "\<not> Contains path ''/releases/'' \<Longrightarrow> releases_tag path = Inr []"
  by (simp add: releases_tag_def)

text \<open>When the split has three pieces or more and the tag is found, a provider is returned.\<close>

lemma newGitHub_Inr:
  assumes "3 \<le> length (Split (Path u) CHR ''/'')" and "releases_tag (Path u) = Inr tg"
  shows "newGitHub getenv u =
     Inr \<lparr>url = u,
          client = NewClient (if getenv ''GITHUB_AUTH_TOKEN'' \<noteq> []
                              then Some (getenv ''GITHUB_AUTH_TOKEN'') else None),
          owner = Split (Path u) CHR ''/'' ! 1,
          repo = Split (Path u) CHR ''/'' ! 2,
          tag = tg\<rparr>"
  using assms by (simp add: newGitHub_def index_def Let_def)

text \<open>
  The parser on a path that ends with \<open>/releases/q/t\<^sub>1/.../t\<^sub>n\<close>: it returns a
  provider whose tag is \<open>t\<^sub>1/.../t\<^sub>n\<close>.
\<close>

lemma newGitHub_tag_after_qualifier:
  assumes path: "path = pre @ ''/releases/'' @ rest"
    and sp: "Split path CHR ''/'' = Split pre CHR ''/'' @ ''releases'' # q # ts"
    and q: "q \<noteq> ''releases''" and ts: "''releases'' \<notin> set ts"
  shows "\<exists>g. newGitHub getenv (u\<lparr>Path := path\<rparr>) = Inr g \<and> tag g = Join ts ''/''"
proof -
  have ct: "Contains path ''/releases/''"
    unfolding path by (rule Contains_append) simp
  have tg: "releases_tag (Path (u\<lparr>Path := path\<rparr>)) = Inr (Join ts ''/'')"
    using releases_tag_last [OF sp ct q ts] by simp
  have "Split pre CHR ''/'' \<noteq> []"
    by (rule Split_not_Nil)
  then have "1 \<le> length (Split pre CHR ''/'')"
    by (cases "Split pre CHR ''/''") simp_all
  then have len: "3 \<le> length (Split (Path (u\<lparr>Path := path\<rparr>)) CHR ''/'')"
    by (simp add: sp)
  show ?thesis
    by (simp add: newGitHub_Inr [OF len tg])
qed

text \<open>
  The parser on a path \<open>pre/releases/q/t\<close>, where \<open>q\<close> is one segment and no
  segment of \<open>t\<close> is \<open>releases\<close>: the tag is \<open>t\<close>, all that follows the
  qualifier.
\<close>

lemma newGitHub_tag_rest:
  assumes q: "CHR ''/'' \<notin> set q" "q \<noteq> ''releases''"
    and t: "''releases'' \<notin> set (Split t CHR ''/'')"
  shows "\<exists>g. newGitHub getenv (u\<lparr>Path := pre @ ''/releases/'' @ q @ ''/'' @ t\<rparr>) = Inr g \<and>
             tag g = t"
  using newGitHub_tag_after_qualifier
    [where path = "pre @ ''/releases/'' @ q @ ''/'' @ t" and pre = pre
      and rest = "q @ ''/'' @ t" and q = q and ts = "Split t CHR ''/''"
      and getenv = getenv and u = u, OF refl Split_releases_qualifier [OF q(1)] q(2) t]
  by (simp add: Join_Split [of t "CHR ''/''", simplified])

text \<open>
  The guard of \<open>newGitHub\<close> lets a path of exactly two pieces through, and the read of
  \<open>s[2]\<close> then panics.
\<close>

lemma newGitHub_owner_only_panics:
  "newGitHub no_token ex_url_owner_only = Inl (Panic (IndexOutOfRange 2 2))"
  by (simp add: newGitHub_def ex_url_owner_only_def releases_tag_def index_def no_token_def)

subsection \<open>The resolver inside Fetch and GetLatestVersion\<close>

lemma Fetch_release_untagged:
  "tag g = [] \<Longrightarrow> Fetch_release api g = getAnyLatestRelease api g TODO"
  by (simp add: Fetch_release_def)

lemma snd_Fetch_Inl:
  "snd (Fetch_release api g) = Inl e \<Longrightarrow> snd (Fetch api pkg g) = Inl e"
  by (auto simp: Fetch_def split: prod.splits sum.splits)

lemma fst_Fetch: "fst (Fetch api pkg g) = fst (Fetch_release api g)"
  by (simp add: Fetch_def split: prod.splits sum.splits)

lemma snd_GetLatestVersion:
  "snd (GetLatestVersion api g) =
     (case snd (getAnyLatestRelease api g TODO) of
        Inl err \<Rightarrow> Inl err
      | Inr release \<Rightarrow> Inr (GetTagName release, GetHTMLURL release))"
  by (simp add: GetLatestVersion_def split: prod.splits sum.splits)

lemma fst_GetLatestVersion:
  "fst (GetLatestVersion api g) = fst (getAnyLatestRelease api g TODO)"
  by (simp add: GetLatestVersion_def split: prod.splits sum.splits)

lemma append_candidates_map:
  "append_candidates cs as =
     cs @ map (\<lambda>a. \<lparr>Asset.Name = GetName a, URL = GetBrowserDownloadURL a\<rparr>) as"
  by (induction as arbitrary: cs) auto

lemma Fetch_Inr:
  assumes "snd (Fetch api pkg g) = Inr f"
  shows "\<exists>release gf name outputFile.
           snd (Fetch_release api g) = Inr release \<and>
           FilterAssets pkg (repo g) (Fetch_candidates release) = Inr gf \<and>
           ProcessURL pkg gf = Inr (name, outputFile) \<and>
           f = \<lparr>Data = outputFile, File.Name = SanitizeName pkg name (GetTagName release),
                Hash = sha256_New, Version = GetTagName release\<rparr>"
  using assms
  by (auto simp: Fetch_def Let_def split: prod.splits sum.splits)

text \<open>The digest of no input, computed from the definition of SHA-256.\<close>

lemma sha256_empty: "sha256 [] = sha256_empty_digest"
  by code_simp

section \<open>The claims of the specification\<close>

subsection \<open>The release resolver\<close>

text \<open>
  C1. When the tag is empty, \<open>GetLatestRelease\<close> fails with a
  \<open>*github.ErrorResponse\<close> of status 404 and \<open>ListReleases\<close> returns a non-empty
  list \<open>R1, R2, ...\<close>, the resolver returns \<open>R1\<close>, the first listed release: as the
  result of \<open>getAnyLatestRelease\<close> for any context, as the release \<open>Fetch\<close>
  works on, and as the tag name and URL that \<open>GetLatestVersion\<close> returns.
\<close>

theorem getAnyLatestRelease_first_listed:
  assumes "GetLatestRelease api (client g) ctx (owner g) (repo g) =
             Inl (ErrorResponse StatusNotFound msg)"
    and "ListReleases api (client g) ctx (owner g) (repo g) \<lparr>Page = 0, PerPage = 1\<rparr> =
             Inr (R1 # Rs)"
  shows "snd (getAnyLatestRelease api g ctx) = Inr R1 \<and>
         (tag g = [] \<and> ctx = TODO \<longrightarrow>
            snd (Fetch_release api g) = Inr R1 \<and>
            snd (GetLatestVersion api g) = Inr (GetTagName R1, GetHTMLURL R1))"
proof -
  have "snd (getAnyLatestRelease api g ctx) = Inr R1"
    using assms by (simp add: getAnyLatestRelease_def)
  then show ?thesis
    by (auto simp: Fetch_release_untagged snd_GetLatestVersion)
qed

theorem getAnyLatestRelease_first_listed_witness:
  "snd (getAnyLatestRelease ex_api_prereleases ex_g TODO) = Inr ex_R1 \<and>
   snd (Fetch_release ex_api_prereleases ex_g) = Inr ex_R1 \<and>
   snd (GetLatestVersion ex_api_prereleases ex_g) =
     Inr (''v2.0.0-rc2'', ''https://github.com/owner/repo/releases/tag/v2.0.0-rc2'')"
proof -
  have 1: "GetLatestRelease ex_api_prereleases (client ex_g) TODO (owner ex_g) (repo ex_g) =
      Inl (ErrorResponse StatusNotFound ''Not Found'')"
    by (simp add: ex_api_prereleases_def ex_not_found_def StatusNotFound_def)
  have 2: "ListReleases ex_api_prereleases (client ex_g) TODO (owner ex_g) (repo ex_g)
      \<lparr>Page = 0, PerPage = 1\<rparr> = Inr (ex_R1 # [ex_R2])"
    by (simp add: ex_api_prereleases_def)
  have 3: "tag ex_g = []"
    by (simp add: ex_g_def)
  have 4: "GetTagName ex_R1 = ''v2.0.0-rc2''"
    "GetHTMLURL ex_R1 = ''https://github.com/owner/repo/releases/tag/v2.0.0-rc2''"
    by (simp_all add: GetTagName_def GetHTMLURL_def ex_R1_def)
  show ?thesis
    using getAnyLatestRelease_first_listed [OF 1 2] 3 4 by simp
qed

text \<open>
  C2. When the tag is empty, \<open>GetLatestRelease\<close> fails with a 404
  \<open>*github.ErrorResponse\<close> and \<open>ListReleases\<close> succeeds with an empty list, the
  resolution fails, and the error returned is that of \<open>GetLatestRelease\<close>, unchanged:
  from \<open>getAnyLatestRelease\<close>, from \<open>Fetch\<close> and from \<open>GetLatestVersion\<close>.
\<close>

theorem getAnyLatestRelease_empty_list:
  assumes "GetLatestRelease api (client g) ctx (owner g) (repo g) =
             Inl (ErrorResponse StatusNotFound msg)"
    and "ListReleases api (client g) ctx (owner g) (repo g) \<lparr>Page = 0, PerPage = 1\<rparr> = Inr []"
  shows "snd (getAnyLatestRelease api g ctx) = Inl (ErrorResponse StatusNotFound msg) \<and>
         (tag g = [] \<and> ctx = TODO \<longrightarrow>
            snd (Fetch api pkg g) = Inl (ErrorResponse StatusNotFound msg) \<and>
            snd (GetLatestVersion api g) = Inl (ErrorResponse StatusNotFound msg))"
proof -
  have "snd (getAnyLatestRelease api g ctx) = Inl (ErrorResponse StatusNotFound msg)"
    using assms by (simp add: getAnyLatestRelease_def)
  then show ?thesis
    by (auto simp: Fetch_release_untagged snd_Fetch_Inl snd_GetLatestVersion)
qed

theorem getAnyLatestRelease_empty_list_witness:
  "snd (getAnyLatestRelease ex_api_no_releases ex_g TODO) = Inl ex_not_found \<and>
   snd (Fetch ex_api_no_releases ex_pkg ex_g) = Inl ex_not_found \<and>
   snd (GetLatestVersion ex_api_no_releases ex_g) = Inl ex_not_found"
proof -
  have 1: "GetLatestRelease ex_api_no_releases (client ex_g) TODO (owner ex_g) (repo ex_g) =
      Inl (ErrorResponse StatusNotFound ''Not Found'')"
    by (simp add: ex_api_no_releases_def ex_not_found_def StatusNotFound_def)
  have 2: "ListReleases ex_api_no_releases (client ex_g) TODO (owner ex_g) (repo ex_g)
      \<lparr>Page = 0, PerPage = 1\<rparr> = Inr []"
    by (simp add: ex_api_no_releases_def)
  have 3: "tag ex_g = []"
    by (simp add: ex_g_def)
  have 4: "ErrorResponse StatusNotFound ''Not Found'' = ex_not_found"
    by (simp add: ex_not_found_def StatusNotFound_def)
  show ?thesis
    using getAnyLatestRelease_empty_list [OF 1 2, of ex_pkg] 3 4 by simp
qed

text \<open>
  C10. When the tag is empty, \<open>GetLatestRelease\<close> fails with a 404
  \<open>*github.ErrorResponse\<close> and the call of \<open>ListReleases\<close> itself fails, the
  error returned is the one of \<open>ListReleases\<close>, not the original one.
\<close>

theorem getAnyLatestRelease_list_error:
  assumes "GetLatestRelease api (client g) ctx (owner g) (repo g) =
             Inl (ErrorResponse StatusNotFound msg)"
    and "ListReleases api (client g) ctx (owner g) (repo g) \<lparr>Page = 0, PerPage = 1\<rparr> =
             Inl listErr"
  shows "snd (getAnyLatestRelease api g ctx) = Inl listErr \<and>
         (tag g = [] \<and> ctx = TODO \<longrightarrow>
            snd (Fetch api pkg g) = Inl listErr \<and>
            snd (GetLatestVersion api g) = Inl listErr)"
proof -
  have "snd (getAnyLatestRelease api g ctx) = Inl listErr"
    using assms by (simp add: getAnyLatestRelease_def)
  then show ?thesis
    by (auto simp: Fetch_release_untagged snd_Fetch_Inl snd_GetLatestVersion)
qed

theorem getAnyLatestRelease_list_error_witness:
  "snd (getAnyLatestRelease ex_api_list_fails ex_g TODO) = Inl (OtherError ''connection reset'') \<and>
   snd (Fetch ex_api_list_fails ex_pkg ex_g) = Inl (OtherError ''connection reset'') \<and>
   snd (GetLatestVersion ex_api_list_fails ex_g) = Inl (OtherError ''connection reset'') \<and>
   OtherError ''connection reset'' \<noteq> ex_not_found"
proof -
  have 1: "GetLatestRelease ex_api_list_fails (client ex_g) TODO (owner ex_g) (repo ex_g) =
      Inl (ErrorResponse StatusNotFound ''Not Found'')"
    by (simp add: ex_api_list_fails_def ex_not_found_def StatusNotFound_def)
  have 2: "ListReleases ex_api_list_fails (client ex_g) TODO (owner ex_g) (repo ex_g)
      \<lparr>Page = 0, PerPage = 1\<rparr> = Inl (OtherError ''connection reset'')"
    by (simp add: ex_api_list_fails_def)
  have 3: "tag ex_g = []"
    by (simp add: ex_g_def)
  show ?thesis
    using getAnyLatestRelease_list_error [OF 1 2, of ex_pkg] 3 by (simp add: ex_not_found_def)
qed

text \<open>
  C5. With a non-empty tag, \<open>Fetch\<close> makes exactly one provider call,
  \<open>GetReleaseByTag\<close> for that tag; \<open>ListReleases\<close> is not among its calls; and an
  error of \<open>GetReleaseByTag\<close> is the error \<open>Fetch\<close> returns, unchanged.
\<close>

theorem Fetch_pinned_no_fallback:
  assumes "tag g \<noteq> []"
  shows "fst (Fetch api pkg g) = [Call_GetReleaseByTag TODO (owner g) (repo g) (tag g)] \<and>
         filter is_ListReleases (fst (Fetch api pkg g)) = [] \<and>
         (\<forall>e. GetReleaseByTag api (client g) TODO (owner g) (repo g) (tag g) = Inl e \<longrightarrow>
              snd (Fetch api pkg g) = Inl e)"
  using assms by (auto simp: Fetch_def Fetch_release_def split: sum.splits prod.splits)

theorem Fetch_pinned_no_fallback_witness:
  "fst (Fetch ex_api_prereleases ex_pkg ex_g_pinned) =
     [Call_GetReleaseByTag TODO ''owner'' ''repo'' ''v9.9.9''] \<and>
   snd (Fetch ex_api_prereleases ex_pkg ex_g_pinned) = Inl ex_not_found"
proof -
  have 1: "tag ex_g_pinned \<noteq> []"
    by (simp add: ex_g_pinned_def)
  have 2: "GetReleaseByTag ex_api_prereleases (client ex_g_pinned) TODO (owner ex_g_pinned)
      (repo ex_g_pinned) (tag ex_g_pinned) = Inl ex_not_found"
    by (simp add: ex_api_prereleases_def)
  show ?thesis
    using Fetch_pinned_no_fallback [OF 1, of ex_api_prereleases ex_pkg] 2
    by (simp add: ex_g_pinned_def ex_g_def)
qed

subsection \<open>The context of the provider calls\<close>

text \<open>
  C9, as the code has it. \<open>getAnyLatestRelease\<close> passes the context it is given to
  each call it makes. \<open>Fetch\<close> and \<open>GetLatestVersion\<close> take no context: every
  provider call they make carries \<open>context.TODO()\<close>, which is never cancelled and has
  no deadline. The claim that a context supplied by the caller reaches every outbound
  call does not hold of them.
\<close>

theorem provider_calls_context:
  "list_all (\<lambda>c. call_context c = ctx) (fst (getAnyLatestRelease api g ctx)) \<and>
   list_all (\<lambda>c. call_context c = TODO) (fst (Fetch api pkg g)) \<and>
   list_all (\<lambda>c. call_context c = TODO) (fst (GetLatestVersion api g)) \<and>
   \<not> cancellable TODO"
proof -
  have 1: "list_all (\<lambda>c. call_context c = c') (fst (getAnyLatestRelease api g c'))" for c'
    by (simp add: getAnyLatestRelease_def Let_def split: sum.splits error.splits)
  have 2: "list_all (\<lambda>c. call_context c = TODO) (fst (Fetch_release api g))"
    using 1 [of TODO] by (simp add: Fetch_release_def)
  show ?thesis
    using 1 [of ctx] 1 [of TODO] 2 by (simp add: fst_Fetch fst_GetLatestVersion)
qed

theorem provider_calls_context_witness:
  "map call_context
     (fst (getAnyLatestRelease ex_api_prereleases ex_g (WithDeadline Background 30))) =
     [WithDeadline Background 30, WithDeadline Background 30] \<and>
   list_all (\<lambda>c. call_context c = TODO) (fst (Fetch ex_api_prereleases ex_pkg ex_g))"
  using provider_calls_context [of "WithDeadline Background 30" ex_api_prereleases ex_g ex_pkg]
  by (simp add: getAnyLatestRelease_def ex_api_prereleases_def ex_not_found_def
      StatusNotFound_def)

text \<open>
  On a pinned and on an unpinned provider, the contexts of the calls of \<open>Fetch\<close> and
  \<open>GetLatestVersion\<close> are \<open>context.TODO()\<close>, whatever deadline the caller runs
  under.
\<close>

theorem provider_calls_context_counterexample:
  "map call_context (fst (Fetch ex_api_prereleases ex_pkg ex_g_pinned)) = [TODO] \<and>
   map call_context (fst (Fetch ex_api_prereleases ex_pkg ex_g)) = [TODO, TODO] \<and>
   map call_context (fst (GetLatestVersion ex_api_prereleases ex_g)) = [TODO, TODO] \<and>
   \<not> cancellable TODO"
  by (simp add: Fetch_def Fetch_release_def GetLatestVersion_def getAnyLatestRelease_def
      ex_api_prereleases_def ex_not_found_def StatusNotFound_def ex_g_pinned_def ex_g_def)

subsection \<open>The candidates and the artifact\<close>

text \<open>
  C7. The candidate list built from a release with \<open>N\<close> attachments has exactly
  \<open>N\<close> entries, in the order of the attachments: the \<open>i\<close>-th candidate has the
  name (\<open>GetName\<close>) and the browser download URL (\<open>GetBrowserDownloadURL\<close>) of the
  \<open>i\<close>-th attachment. The projection is a total function: it cannot fail.
\<close>

theorem Fetch_candidates_projection:
  "length (Fetch_candidates r) = length (Assets r) \<and>
   (\<forall>i < length (Assets r).
      Asset.Name (Fetch_candidates r ! i) = GetName (Assets r ! i) \<and>
      URL (Fetch_candidates r ! i) = GetBrowserDownloadURL (Assets r ! i))"
  by (simp add: Fetch_candidates_def append_candidates_map)

theorem Fetch_candidates_projection_witness:
  "length (Fetch_candidates ex_R1) = 2 \<and>
   Asset.Name (Fetch_candidates ex_R1 ! 0) = ''repo_linux_amd64'' \<and>
   Asset.Name (Fetch_candidates ex_R1 ! 1) = ''repo_darwin_amd64'' \<and>
   URL (Fetch_candidates ex_R1 ! 1) =
     ''https://github.com/owner/repo/releases/download/v2.0.0-rc2/repo_darwin_amd64''"
  using Fetch_candidates_projection [of ex_R1]
  by (simp add: ex_R1_def GetName_def GetBrowserDownloadURL_def)

text \<open>
  C8. Whenever \<open>Fetch\<close> succeeds with a file \<open>f\<close>: its \<open>Hash\<close> is
  \<open>sha256.New()\<close>, to which nothing has been written, so that its sum, also after
  a write of zero bytes, is the SHA-256 digest of the empty input; its \<open>Version\<close> is the tag name of the resolved release;
  and its \<open>Name\<close> is \<open>SanitizeName\<close> of the name \<open>ProcessURL\<close> returned for the
  selected candidate and of that tag name.
\<close>

theorem Fetch_artifact:
  assumes "snd (Fetch api pkg g) = Inr f"
  shows "Hash f = sha256_New \<and> written (Hash f) = [] \<and>
         hash_Sum (Hash f) [] = sha256_empty_digest \<and>
         hash_Sum (hash_Write (Hash f) []) [] = sha256_empty_digest \<and>
         (\<exists>release gf name.
            snd (Fetch_release api g) = Inr release \<and>
            FilterAssets pkg (repo g) (Fetch_candidates release) = Inr gf \<and>
            ProcessURL pkg gf = Inr (name, Data f) \<and>
            Version f = GetTagName release \<and>
            File.Name f = SanitizeName pkg name (GetTagName release))"
proof -
  obtain release gf name outputFile where
    r: "snd (Fetch_release api g) = Inr release"
    and c: "FilterAssets pkg (repo g) (Fetch_candidates release) = Inr gf"
    and p: "ProcessURL pkg gf = Inr (name, outputFile)"
    and f: "f = \<lparr>Data = outputFile, File.Name = SanitizeName pkg name (GetTagName release),
                 Hash = sha256_New, Version = GetTagName release\<rparr>"
    using Fetch_Inr [OF assms] by blast
  have "hash_Sum sha256_New [] = sha256_empty_digest"
    and "hash_Sum (hash_Write sha256_New []) [] = sha256_empty_digest"
    by (simp_all add: hash_Sum_def hash_Write_def sha256_New_def sha256_empty)
  then have "Hash f = sha256_New \<and> written (Hash f) = [] \<and>
      hash_Sum (Hash f) [] = sha256_empty_digest \<and>
      hash_Sum (hash_Write (Hash f) []) [] = sha256_empty_digest"
    by (simp add: f sha256_New_def)
  moreover have "ProcessURL pkg gf = Inr (name, Data f)"
    "Version f = GetTagName release"
    "File.Name f = SanitizeName pkg name (GetTagName release)"
    by (simp_all add: f p)
  ultimately show ?thesis
    using r c by blast
qed

theorem Fetch_artifact_witness:
  "snd (Fetch ex_api_prereleases ex_pkg ex_g) = Inr ex_file \<and>
   written (Hash ex_file) = [] \<and>
   hash_Sum (Hash ex_file) [] = sha256_empty_digest \<and>
   Version ex_file = ''v2.0.0-rc2'' \<and>
   File.Name ex_file = ''repo_linux_amd64''"
proof -
  have 1: "snd (Fetch ex_api_prereleases ex_pkg ex_g) = Inr ex_file"
    by (simp add: Fetch_def Fetch_release_def getAnyLatestRelease_def Fetch_candidates_def
        ex_api_prereleases_def ex_not_found_def StatusNotFound_def ex_g_def ex_pkg_def
        ex_R1_def ex_file_def GetName_def GetBrowserDownloadURL_def GetTagName_def)
  have 2: "Version ex_file = ''v2.0.0-rc2''" "File.Name ex_file = ''repo_linux_amd64''"
    by (simp_all add: ex_file_def)
  show ?thesis
    using Fetch_artifact [OF 1] 1 2 by blast
qed

subsection \<open>The URL parser\<close>

text \<open>
  C6, as the code has it. For every URL whose path ends with \<open>/releases/tag/t\<close>,
  where \<open>t\<close> is one segment other than \<open>releases\<close>, whatever comes before, the
  parser returns a provider and its tag is exactly \<open>t\<close>; so the tag is exactly
  \<open>v1.2.3\<close> when the path ends with \<open>/releases/tag/v1.2.3\<close>. A path that only
  contains these segments and goes on after them does not give that tag.
\<close>

theorem newGitHub_view_url_tag:
  assumes "CHR ''/'' \<notin> set t" and "t \<noteq> ''releases''"
  shows "\<exists>g. newGitHub getenv (u\<lparr>Path := pre @ ''/releases/tag/'' @ t\<rparr>) = Inr g \<and> tag g = t"
  using newGitHub_tag_rest
    [where q = "''tag''" and t = t and pre = pre and getenv = getenv and u = u] assms
  by (simp add: Split_no_sep)

theorem newGitHub_view_url_tag_witness:
  "CHR ''/'' \<notin> set ''v1.2.3'' \<and> ''v1.2.3'' \<noteq> ''releases'' \<and>
   newGitHub no_token ex_url_view = Inr ex_g_view \<and> tag ex_g_view = ''v1.2.3''"
proof -
  have 1: "CHR ''/'' \<notin> set ''v1.2.3''" and 2: "''v1.2.3'' \<noteq> ''releases''"
    by simp_all
  have "\<exists>g. newGitHub no_token ex_url_view = Inr g \<and> tag g = ''v1.2.3''"
    using newGitHub_view_url_tag
      [OF 1 2, where getenv = no_token and u = ex_url_view and pre = "''/owner/repo''"]
    by (simp add: ex_url_view_def)
  moreover have "newGitHub no_token ex_url_view = Inr ex_g_view"
    by (simp add: newGitHub_def ex_url_view_def releases_tag_def index_def no_token_def
        ex_g_view_def)
  ultimately show ?thesis
    by (simp add: ex_g_view_def)
qed

text \<open>
  The URL \<open>https://github.com/owner/repo/releases/tag/v1.2.3/\<close>: its path contains
  \<open>/releases/tag/v1.2.3\<close>, and the tag of the provider is \<open>v1.2.3/\<close>.
\<close>

theorem newGitHub_view_url_tag_counterexample:
  "Contains (Path ex_url_view_slash) ''/releases/tag/v1.2.3'' \<and>
   newGitHub no_token ex_url_view_slash =
     Inr \<lparr>url = ex_url_view_slash, client = NewClient None, owner = ''owner'', repo = ''repo'',
          tag = ''v1.2.3/''\<rparr>"
  by (simp add: newGitHub_def ex_url_view_slash_def releases_tag_def index_def no_token_def)

text \<open>
  C3. The claim: for an asset-download URL with the segments
  \<open>/releases/download/v1.2.3/asset.tar.gz\<close> the tag is exactly \<open>v1.2.3\<close>. The
  comment in \<open>newGitHub\<close> names download URLs among those the block handles, but the
  code joins every segment after the qualifier, the asset name too. On
  \<open>/owner/repo/releases/download/v1.2.3/asset.tar.gz\<close> the tag is
  \<open>v1.2.3/asset.tar.gz\<close>, which names no release: on a repository whose release is
  \<open>v1.2.3\<close>, \<open>Fetch\<close> asks for that tag and fails with the provider's 404, while
  the release-view URL of the same release gives the tag \<open>v1.2.3\<close> and the file.
\<close>

theorem newGitHub_download_url_tag_bug:
  "newGitHub no_token ex_url_download = Inr ex_g_download \<and>
   tag ex_g_download = ''v1.2.3/asset.tar.gz'' \<and>
   Fetch ex_api_v123 ex_pkg ex_g_download =
     ([Call_GetReleaseByTag TODO ''owner'' ''repo'' ''v1.2.3/asset.tar.gz''], Inl ex_not_found) \<and>
   newGitHub no_token ex_url_view = Inr ex_g_view \<and>
   tag ex_g_view = ''v1.2.3'' \<and>
   Fetch ex_api_v123 ex_pkg ex_g_view =
     ([Call_GetReleaseByTag TODO ''owner'' ''repo'' ''v1.2.3''], Inr ex_file_v123)"
  by (simp add: newGitHub_def ex_url_download_def ex_url_view_def releases_tag_def index_def
      no_token_def ex_g_download_def ex_g_view_def Fetch_def Fetch_release_def
      Fetch_candidates_def ex_api_v123_def ex_pkg_def ex_R123_def ex_file_v123_def
      GetName_def GetBrowserDownloadURL_def GetTagName_def)

text \<open>
  C4, as the code has it. The owner and the repository are read by position: they are
  the second and the third piece of the path split at \<open>/\<close>, empty pieces included.
  \<^item> When the split has fewer than two pieces (the path has no \<open>/\<close>), the parser
    returns its parsing error.
  \<^item> When the split has three pieces or more and the tag is found, the parser returns a
    provider with those two pieces as owner and repository.
  \<^item> A path without \<open>/releases/\<close> has the empty tag.
  \<^item> For a path \<open>/ow/rp\<close>, or \<open>/ow/rp/\<close> followed by anything, the two pieces are
    \<open>ow\<close> and \<open>rp\<close>; when neither is empty they are the first two non-empty
    segments, as the specification words it.
\<close>

theorem newGitHub_owner_repo:
  "(length (Split (Path u) CHR ''/'') < 2 \<longrightarrow>
      newGitHub getenv u = Inl (Error (ErrParsingGithubURL u))) \<and>
   (3 \<le> length (Split (Path u) CHR ''/'') \<and> releases_tag (Path u) = Inr tg \<longrightarrow>
      newGitHub getenv u =
        Inr \<lparr>url = u,
             client = NewClient (if getenv ''GITHUB_AUTH_TOKEN'' \<noteq> []
                                 then Some (getenv ''GITHUB_AUTH_TOKEN'') else None),
             owner = Split (Path u) CHR ''/'' ! 1,
             repo = Split (Path u) CHR ''/'' ! 2,
             tag = tg\<rparr>) \<and>
   (\<not> Contains (Path u) ''/releases/'' \<longrightarrow> releases_tag (Path u) = Inr []) \<and>
   (CHR ''/'' \<notin> set ow \<and> CHR ''/'' \<notin> set rp \<and>
    (Path u = ''/'' @ ow @ ''/'' @ rp \<or> Path u = ''/'' @ ow @ ''/'' @ rp @ ''/'' @ trailing) \<longrightarrow>
      3 \<le> length (Split (Path u) CHR ''/'') \<and>
      Split (Path u) CHR ''/'' ! 1 = ow \<and> Split (Path u) CHR ''/'' ! 2 = rp \<and>
      (ow \<noteq> [] \<and> rp \<noteq> [] \<longrightarrow> spec_owner_repo (Path u) = Some (ow, rp)))"
proof (intro conjI impI)
  assume "length (Split (Path u) CHR ''/'') < 2"
  then show "newGitHub getenv u = Inl (Error (ErrParsingGithubURL u))"
    by (simp add: newGitHub_def)
next
  assume "3 \<le> length (Split (Path u) CHR ''/'') \<and> releases_tag (Path u) = Inr tg"
  then show "newGitHub getenv u =
        Inr \<lparr>url = u,
             client = NewClient (if getenv ''GITHUB_AUTH_TOKEN'' \<noteq> []
                                 then Some (getenv ''GITHUB_AUTH_TOKEN'') else None),
             owner = Split (Path u) CHR ''/'' ! 1,
             repo = Split (Path u) CHR ''/'' ! 2,
             tag = tg\<rparr>"
    by (simp add: newGitHub_Inr)
next
  assume "\<not> Contains (Path u) ''/releases/''"
  then show "releases_tag (Path u) = Inr []"
    by (rule releases_tag_absent)
next
  assume a: "CHR ''/'' \<notin> set ow \<and> CHR ''/'' \<notin> set rp \<and>
    (Path u = ''/'' @ ow @ ''/'' @ rp \<or> Path u = ''/'' @ ow @ ''/'' @ rp @ ''/'' @ trailing)"
  then obtain more where sp: "Split (Path u) CHR ''/'' = [] # ow # rp # more"
    using Split_path_shape(1) [of ow rp] Split_path_shape(2) [of ow rp trailing] by auto
  show "3 \<le> length (Split (Path u) CHR ''/'')"
    "Split (Path u) CHR ''/'' ! 1 = ow" "Split (Path u) CHR ''/'' ! 2 = rp"
    by (simp_all add: sp)
  assume "ow \<noteq> [] \<and> rp \<noteq> []"
  then show "spec_owner_repo (Path u) = Some (ow, rp)"
    by (simp add: spec_owner_repo_def sp)
qed

theorem newGitHub_owner_repo_witness:
  "newGitHub no_token ex_url_no_slash = Inl (Error (ErrParsingGithubURL ex_url_no_slash)) \<and>
   newGitHub no_token ex_url_view =
     Inr \<lparr>url = ex_url_view, client = NewClient None, owner = ''owner'', repo = ''repo'',
          tag = ''v1.2.3''\<rparr> \<and>
   spec_owner_repo (Path ex_url_view) = Some (''owner'', ''repo'')"
proof -
  have 1: "length (Split (Path ex_url_no_slash) CHR ''/'') < 2"
    by (simp add: ex_url_no_slash_def)
  have 2: "3 \<le> length (Split (Path ex_url_view) CHR ''/'') \<and>
      releases_tag (Path ex_url_view) = Inr ''v1.2.3''"
    by (simp add: ex_url_view_def releases_tag_def)
  have 3: "CHR ''/'' \<notin> set ''owner'' \<and> CHR ''/'' \<notin> set ''repo'' \<and>
      (Path ex_url_view = ''/'' @ ''owner'' @ ''/'' @ ''repo'' \<or>
       Path ex_url_view = ''/'' @ ''owner'' @ ''/'' @ ''repo'' @ ''/'' @ ''releases/tag/v1.2.3'')"
    by (simp add: ex_url_view_def)
  note a = newGitHub_owner_repo [where u = ex_url_no_slash and getenv = no_token]
  note b = newGitHub_owner_repo
    [where u = ex_url_view and ow = "''owner''" and rp = "''repo''"
      and trailing = "''releases/tag/v1.2.3''" and getenv = no_token and tg = "''v1.2.3''"]
  have 4: "newGitHub no_token ex_url_no_slash = Inl (Error (ErrParsingGithubURL ex_url_no_slash))"
    using a 1 by blast
  have 5: "newGitHub no_token ex_url_view =
      Inr \<lparr>url = ex_url_view,
           client = NewClient (if no_token ''GITHUB_AUTH_TOKEN'' \<noteq> []
                               then Some (no_token ''GITHUB_AUTH_TOKEN'') else None),
           owner = Split (Path ex_url_view) CHR ''/'' ! 1,
           repo = Split (Path ex_url_view) CHR ''/'' ! 2,
           tag = ''v1.2.3''\<rparr>"
    using b 2 by blast
  have 6: "Split (Path ex_url_view) CHR ''/'' ! 1 = ''owner''"
    "Split (Path ex_url_view) CHR ''/'' ! 2 = ''repo''"
    "spec_owner_repo (Path ex_url_view) = Some (''owner'', ''repo'')"
    using b 3 by blast+
  show ?thesis
    using 4 5 6 by (simp add: no_token_def)
qed

text \<open>
  The URL \<open>https://github.com//owner/repo\<close>: its first two non-empty segments are
  \<open>owner\<close> and \<open>repo\<close>, and the parser returns a provider with the empty owner and
  the repository \<open>owner\<close>.
\<close>

theorem newGitHub_owner_repo_counterexample:
  "spec_owner_repo (Path ex_url_double_slash) = Some (''owner'', ''repo'') \<and>
   newGitHub no_token ex_url_double_slash =
     Inr \<lparr>url = ex_url_double_slash, client = NewClient None, owner = [], repo = ''owner'',
          tag = []\<rparr>"
  by (simp add: newGitHub_def ex_url_double_slash_def releases_tag_def index_def no_token_def
      spec_owner_repo_def)

end
